theory Spec2Isabelle
  imports Complex_Main "HOL-Library.Word" "HOL-Library.AList"
begin

section \<open>Data model\<close>

text \<open>
  The repository is one file, \<^verbatim>\<open>src/main.py\<close>, holding one route handler:
  \<^verbatim>\<open>
  @app.get("/products/{category}/items/{item_id}")
  async def read_product_item(
      category: str,
      item_id: int,
      urgent: bool = False,
      discount: float = 0.0
  ):
      item = {
          "category": category,
          "item_id": item_id,
          "urgent": urgent,
          "discount_applied": discount
      }
      return item
  \<close>
  The handler receives four already typed Python values and returns a dictionary
  whose values have four different Python types.
\<close>

text \<open>
  A Python \<^verbatim>\<open>float\<close> is an IEEE 754 binary64 number. The handler performs no
  arithmetic and no comparison on it, it only stores the object it was given, so the
  number is modelled by its 64-bit pattern: bit 63 is the sign, bits 62 to 52 the
  biased exponent, bits 51 to 0 the fraction. Equality of patterns is identity of the
  value, also for the two zeros and for NaN.
\<close>

datatype pyfloat = PyFloat (bits: "64 word")

definition float_sign :: "pyfloat \<Rightarrow> bool" where
  "float_sign x = bit (bits x) 63"

definition float_exponent :: "pyfloat \<Rightarrow> int" where
  "float_exponent x = uint (take_bit 11 (drop_bit 52 (bits x)))"

definition float_fraction :: "pyfloat \<Rightarrow> int" where
  "float_fraction x = uint (take_bit 52 (bits x))"

text \<open>
  The real number a pattern stands for, when the pattern is a zero, a subnormal or a
  normal number (biased exponent below 2047). Infinities and NaN have no value.
\<close>

definition float_value :: "pyfloat \<Rightarrow> real option" where
  "float_value x =
     (let s = (if float_sign x then - 1 else 1 :: real);
          e = float_exponent x;
          f = real_of_int (float_fraction x) / 2 ^ 52
      in if e = 2047 then None
         else if e = 0 then Some (s * f / 2 ^ 1022)
         else if e < 1023 then Some (s * (1 + f) / 2 ^ nat (1023 - e))
         else Some (s * (1 + f) * 2 ^ nat (e - 1023)))"

text \<open>
  The values a parameter or a dictionary entry of this handler can hold: a Python
  \<^verbatim>\<open>str\<close>, an unbounded \<^verbatim>\<open>int\<close>, a \<^verbatim>\<open>bool\<close> or a \<^verbatim>\<open>float\<close>.
\<close>

datatype pyval =
    VStr string
  | VInt int
  | VBool bool
  | VFloat pyfloat

text \<open>
  A Python dictionary with string keys keeps its entries in insertion order; a
  dictionary display inserts the entries from left to right. It is modelled as the
  list of its entries in that order, read by key with \<^const>\<open>map_of\<close>.
\<close>

type_synonym pydict = "(string \<times> pyval) list"

definition dict_keys :: "pydict \<Rightarrow> string list" where
  "dict_keys d = map fst d"

definition dict_get :: "pydict \<Rightarrow> string \<Rightarrow> pyval option" where
  "dict_get d k = map_of d k"

section \<open>The handler\<close>

text \<open>
  An invocation of \<^verbatim>\<open>read_product_item\<close> passes the two required arguments and may
  omit each of the two arguments that have a default in the signature: an omitted
  argument is \<^const>\<open>None\<close>, and the signature binds its default (\<^verbatim>\<open>False\<close>,
  \<^verbatim>\<open>0.0\<close>) to the parameter.

  The body contains no \<^verbatim>\<open>await\<close>, so the coroutine runs from its first statement
  to \<^verbatim>\<open>return item\<close> in one step. The outcome of that step is either an exception
  (\<^const>\<open>Inl\<close>) or the returned dictionary (\<^const>\<open>Inr\<close>); the exception type \<open>'e\<close>
  is left open, since the body names none. Everything that exists outside the
  invocation (the module's globals, the application object, any other state of the
  process) is the parameter \<open>w\<close> of an arbitrary type \<open>'w\<close>, threaded through the
  call and returned with the outcome; the body reads no name other than its four
  parameters and assigns only its local \<^verbatim>\<open>item\<close>.
\<close>

definition read_product_item ::
  "string \<Rightarrow> int \<Rightarrow> bool option \<Rightarrow> pyfloat option \<Rightarrow> 'w \<Rightarrow> ('e + pydict) \<times> 'w" where
  "read_product_item category item_id urgent_arg discount_arg w =
     (let urgent = (case urgent_arg of None \<Rightarrow> False | Some b \<Rightarrow> b);
          discount = (case discount_arg of None \<Rightarrow> PyFloat 0 | Some x \<Rightarrow> x);
          item = [(''category'', VStr category),
                  (''item_id'', VInt item_id),
                  (''urgent'', VBool urgent),
                  (''discount_applied'', VFloat discount)]
      in (Inr item, w))"

text \<open>What an observer of an invocation sees: the entry of the returned dictionary
  under a key (nothing when the invocation raised).\<close>

definition response_field :: "('e + pydict) \<times> 'w \<Rightarrow> string \<Rightarrow> pyval option" where
  "response_field r k = (case fst r of Inl e \<Rightarrow> None | Inr item \<Rightarrow> dict_get item k)"

section \<open>The invocation as a frame\<close>

text \<open>
  The statements of the body, one by one, on the state a running Python function has.
  A function runs in a frame with two namespaces: the locals of the call, which hold
  the parameters and the names the body assigns, and the globals of the module
  (\<^verbatim>\<open>FastAPI\<close>, \<^verbatim>\<open>app\<close> and \<^verbatim>\<open>read_product_item\<close> itself, bound by lines 1, 4 and
  7 of the file). The frame and its locals end with the call; the globals are what
  the next call and the rest of the process see.

  A namespace binds names to objects. The four arguments are immutable objects
  (\<^verbatim>\<open>str\<close>, \<^verbatim>\<open>int\<close>, \<^verbatim>\<open>bool\<close>, \<^verbatim>\<open>float\<close>), so they are values; a dictionary is
  its entries; an object of any other class is its class name and its attributes.
  An object that could be reached from a global and changed is part of the value
  bound to that global, so a change to it is a change of the globals.
\<close>

datatype pyobject =
    Val pyval
  | DictObj "(string \<times> pyobject) list"
  | Instance string "(string \<times> pyobject) list"

type_synonym namespace = "string \<rightharpoonup> pyobject"

record frame =
  f_globals :: namespace
  f_locals :: namespace

text \<open>
  Reading a local name that is not bound raises \<^verbatim>\<open>UnboundLocalError\<close>; assigning a
  local name binds it in the locals of the frame.
\<close>

datatype pyexn = UnboundLocalError string

definition load_fast :: "string \<Rightarrow> frame \<Rightarrow> pyexn + pyobject" where
  "load_fast name fr =
     (case f_locals fr name of None \<Rightarrow> Inl (UnboundLocalError name) | Some v \<Rightarrow> Inr v)"

definition store_fast :: "string \<Rightarrow> pyobject \<Rightarrow> frame \<Rightarrow> frame" where
  "store_fast name v fr = fr\<lparr>f_locals := (f_locals fr)(name \<mapsto> v)\<rparr>"

text \<open>
  A dictionary display evaluates its entries from left to right and stores each value
  under its key in a new dictionary; a key that is already present keeps its place
  and takes the new value. In this body every key is a string constant and every
  value expression is a name, so an entry of the display is a pair of the key and the
  name to read. The first name that cannot be read ends the evaluation.
\<close>

fun dict_display ::
  "(string \<times> string) list \<Rightarrow> frame \<Rightarrow> (string \<times> pyobject) list
     \<Rightarrow> pyexn + (string \<times> pyobject) list" where
  "dict_display [] fr d = Inr d"
| "dict_display ((k, name) # es) fr d =
     (case load_fast name fr of
        Inl e \<Rightarrow> Inl e
      | Inr v \<Rightarrow> dict_display es fr (AList.update k v d))"

text \<open>
  The body: \<^verbatim>\<open>item = { ... }\<close> evaluates the display over the four parameters and
  binds the local \<^verbatim>\<open>item\<close>; \<^verbatim>\<open>return item\<close> reads that local and returns it.
\<close>

definition read_product_item_body :: "frame \<Rightarrow> (pyexn + pyobject) \<times> frame" where
  "read_product_item_body fr =
     (case dict_display [(''category'', ''category''),
                         (''item_id'', ''item_id''),
                         (''urgent'', ''urgent''),
                         (''discount_applied'', ''discount'')] fr [] of
        Inl e \<Rightarrow> (Inl e, fr)
      | Inr d \<Rightarrow>
          (let fr' = store_fast ''item'' (DictObj d) fr
           in (case load_fast ''item'' fr' of
                 Inl e \<Rightarrow> (Inl e, fr')
               | Inr v \<Rightarrow> (Inr v, fr'))))"

text \<open>
  A call binds the four parameters in the locals of a new frame, an omitted argument
  to its default, runs the body in that frame, and leaves the outcome and the
  globals; the frame is dropped.
\<close>

definition bind_arguments ::
  "string \<Rightarrow> int \<Rightarrow> bool option \<Rightarrow> pyfloat option \<Rightarrow> namespace" where
  "bind_arguments category item_id urgent_arg discount_arg =
     [''category'' \<mapsto> Val (VStr category),
      ''item_id'' \<mapsto> Val (VInt item_id),
      ''urgent'' \<mapsto> Val (VBool (case urgent_arg of None \<Rightarrow> False | Some b \<Rightarrow> b)),
      ''discount'' \<mapsto> Val (VFloat (case discount_arg of None \<Rightarrow> PyFloat 0 | Some x \<Rightarrow> x))]"

definition call_read_product_item ::
  "string \<Rightarrow> int \<Rightarrow> bool option \<Rightarrow> pyfloat option \<Rightarrow> namespace
     \<Rightarrow> (pyexn + pyobject) \<times> namespace" where
  "call_read_product_item category item_id urgent_arg discount_arg g =
     (let fr = \<lparr>f_globals = g,
                f_locals = bind_arguments category item_id urgent_arg discount_arg\<rparr>;
          (r, fr') = read_product_item_body fr
      in (r, f_globals fr'))"

text \<open>The dictionary of the previous section as an object of a frame.\<close>

definition dict_object :: "pydict \<Rightarrow> pyobject" where
  "dict_object d = DictObj (map (\<lambda>(k, v). (k, Val v)) d)"

section \<open>Helper facts\<close>

lemma read_product_item_unfold:
  "read_product_item category item_id urgent_arg discount_arg w =
     (Inr [(''category'', VStr category),
           (''item_id'', VInt item_id),
           (''urgent'', VBool (case urgent_arg of None \<Rightarrow> False | Some b \<Rightarrow> b)),
           (''discount_applied'',
              VFloat (case discount_arg of None \<Rightarrow> PyFloat 0 | Some x \<Rightarrow> x))], w)"
  by (simp add: read_product_item_def)

lemmas float_parts = float_value_def float_sign_def float_exponent_def float_fraction_def

text \<open>The three numbers that the scenarios of the specification use.\<close>

lemma float_zero: "float_value (PyFloat 0) = Some 0" "\<not> float_sign (PyFloat 0)"
  by (simp_all add: float_parts)

lemma float_minus_five: "float_value (PyFloat 0xC014000000000000) = Some (- 5)"
  by (simp add: float_parts)

lemma float_fifteen_and_a_half: "float_value (PyFloat 0x402F000000000000) = Some 15.5"
  by (simp add: float_parts)

lemma response_field_read_product_item:
  "response_field (read_product_item category item_id urgent_arg discount_arg w) k =
     map_of [(''category'', VStr category),
             (''item_id'', VInt item_id),
             (''urgent'', VBool (case urgent_arg of None \<Rightarrow> False | Some b \<Rightarrow> b)),
             (''discount_applied'',
                VFloat (case discount_arg of None \<Rightarrow> PyFloat 0 | Some x \<Rightarrow> x))] k"
  by (simp add: read_product_item_unfold response_field_def dict_get_def)

lemma call_read_product_item_unfold:
  "call_read_product_item category item_id urgent_arg discount_arg g =
     (Inr (DictObj
        [(''category'', Val (VStr category)),
         (''item_id'', Val (VInt item_id)),
         (''urgent'', Val (VBool (case urgent_arg of None \<Rightarrow> False | Some b \<Rightarrow> b))),
         (''discount_applied'',
            Val (VFloat (case discount_arg of None \<Rightarrow> PyFloat 0 | Some x \<Rightarrow> x)))]), g)"
  by (simp add: call_read_product_item_def read_product_item_body_def bind_arguments_def
      load_fast_def store_fast_def)

lemma dict_display_locals_only:
  "dict_display es \<lparr>f_globals = g1, f_locals = l\<rparr> d
     = dict_display es \<lparr>f_globals = g2, f_locals = l\<rparr> d"
  by (induction es arbitrary: d) (auto simp add: load_fast_def split: option.splits)

lemma read_product_item_body_globals:
  "f_globals (snd (read_product_item_body fr)) = f_globals fr"
  by (simp add: read_product_item_body_def store_fast_def load_fast_def Let_def
      split: sum.splits option.splits)

lemma read_product_item_body_locals_only:
  "fst (read_product_item_body \<lparr>f_globals = g1, f_locals = l\<rparr>)
     = fst (read_product_item_body \<lparr>f_globals = g2, f_locals = l\<rparr>)"
  unfolding read_product_item_body_def
  by (simp only: dict_display_locals_only [of _ g1 l _ g2])
     (simp add: store_fast_def load_fast_def split: sum.splits)

section \<open>Shape of the response\<close>

text \<open>
  C1. Every invocation, with or without the two optional arguments, returns a
  dictionary whose keys are category, item_id, urgent and discount_applied, in this
  order and with no other key; in particular there is no key named discount, and the
  value passed as discount is the entry under discount_applied.
\<close>

theorem read_product_item_keys:
  "(\<exists>item. read_product_item category item_id urgent_arg discount_arg w = (Inr item, w)
      \<and> dict_keys item = [''category'', ''item_id'', ''urgent'', ''discount_applied'']
      \<and> dom (dict_get item) = {''category'', ''item_id'', ''urgent'', ''discount_applied''}
      \<and> dict_get item ''discount'' = None)
   \<and> response_field (read_product_item category item_id urgent_arg (Some discount) w)
         ''discount_applied'' = Some (VFloat discount)"
proof -
  let ?item = "[(''category'', VStr category),
                (''item_id'', VInt item_id),
                (''urgent'', VBool (case urgent_arg of None \<Rightarrow> False | Some b \<Rightarrow> b)),
                (''discount_applied'',
                   VFloat (case discount_arg of None \<Rightarrow> PyFloat 0 | Some x \<Rightarrow> x))]"
  have run: "read_product_item category item_id urgent_arg discount_arg w = (Inr ?item, w)"
    by (rule read_product_item_unfold)
  have keys: "dict_keys ?item = [''category'', ''item_id'', ''urgent'', ''discount_applied'']"
    by (simp add: dict_keys_def)
  have "dom (dict_get ?item) = fst ` set ?item"
    unfolding dict_get_def by (rule dom_map_of_conv_image_fst)
  then have dom: "dom (dict_get ?item) = {''category'', ''item_id'', ''urgent'', ''discount_applied''}"
    by simp
  have no_discount: "dict_get ?item ''discount'' = None"
    by (simp add: dict_get_def)
  have renamed: "response_field (read_product_item category item_id urgent_arg (Some discount) w)
      ''discount_applied'' = Some (VFloat discount)"
    by (simp add: response_field_read_product_item)
  from run keys dom no_discount have "\<exists>item. read_product_item category item_id urgent_arg discount_arg w = (Inr item, w)
      \<and> dict_keys item = [''category'', ''item_id'', ''urgent'', ''discount_applied'']
      \<and> dom (dict_get item) = {''category'', ''item_id'', ''urgent'', ''discount_applied''}
      \<and> dict_get item ''discount'' = None"
    by (intro exI [of _ ?item] conjI)
  with renamed show ?thesis
    by (intro conjI)
qed

text \<open>
  C2. When all four arguments are passed, the returned dictionary holds exactly the
  four values it was given: the string under category, the integer under item_id, the
  boolean under urgent and the float under discount_applied, none of them changed.
\<close>

theorem read_product_item_echoes:
  "read_product_item category item_id (Some urgent) (Some discount) w =
     (Inr [(''category'', VStr category),
           (''item_id'', VInt item_id),
           (''urgent'', VBool urgent),
           (''discount_applied'', VFloat discount)], w)
   \<and> response_field (read_product_item category item_id (Some urgent) (Some discount) w)
         ''category'' = Some (VStr category)
   \<and> response_field (read_product_item category item_id (Some urgent) (Some discount) w)
         ''item_id'' = Some (VInt item_id)
   \<and> response_field (read_product_item category item_id (Some urgent) (Some discount) w)
         ''urgent'' = Some (VBool urgent)
   \<and> response_field (read_product_item category item_id (Some urgent) (Some discount) w)
         ''discount_applied'' = Some (VFloat discount)"
proof (intro conjI)
  show "read_product_item category item_id (Some urgent) (Some discount) w =
     (Inr [(''category'', VStr category),
           (''item_id'', VInt item_id),
           (''urgent'', VBool urgent),
           (''discount_applied'', VFloat discount)], w)"
    by (simp add: read_product_item_unfold)
qed (simp_all add: response_field_read_product_item)

section \<open>Defaults\<close>

text \<open>
  C3. An invocation that omits urgent answers urgent = False, whatever the other
  arguments are, and one that omits discount answers discount_applied = 0.0, the
  positive zero.
\<close>

theorem read_product_item_defaults:
  "response_field (read_product_item category item_id None discount_arg w) ''urgent''
     = Some (VBool False)
   \<and> response_field (read_product_item category item_id urgent_arg None w) ''discount_applied''
     = Some (VFloat (PyFloat 0))
   \<and> float_value (PyFloat 0) = Some 0
   \<and> \<not> float_sign (PyFloat 0)"
  by (simp add: response_field_read_product_item float_zero)

section \<open>Purity and information flow\<close>

text \<open>
  C4. The handler is deterministic and pure. A call with given arguments has the
  same outcome whatever the globals \<open>g1\<close> and \<open>g2\<close> it runs in; it leaves the globals
  as it found them; a second call with the same arguments, run after the first,
  has the outcome of the first; and the outcome is the dictionary that
  \<^const>\<open>read_product_item\<close> returns for these arguments. The last two parts are about
  the body in any frame, also one where a parameter is unbound and the body raises:
  the body never changes the globals, and its outcome is the same in two frames with
  the same locals. The only state the body writes is the local \<^verbatim>\<open>item\<close>, which ends
  with the call, and the arguments are immutable objects.
\<close>

theorem read_product_item_pure:
  "fst (call_read_product_item category item_id urgent_arg discount_arg g1)
     = fst (call_read_product_item category item_id urgent_arg discount_arg g2)
   \<and> snd (call_read_product_item category item_id urgent_arg discount_arg g) = g
   \<and> fst (call_read_product_item category item_id urgent_arg discount_arg
        (snd (call_read_product_item category item_id urgent_arg discount_arg g)))
     = fst (call_read_product_item category item_id urgent_arg discount_arg g)
   \<and> (\<exists>item. read_product_item category item_id urgent_arg discount_arg g = (Inr item, g)
        \<and> call_read_product_item category item_id urgent_arg discount_arg g
            = (Inr (dict_object item), g))
   \<and> f_globals (snd (read_product_item_body fr)) = f_globals fr
   \<and> fst (read_product_item_body \<lparr>f_globals = g1, f_locals = l\<rparr>)
     = fst (read_product_item_body \<lparr>f_globals = g2, f_locals = l\<rparr>)"
proof (intro conjI)
  show "f_globals (snd (read_product_item_body fr)) = f_globals fr"
    by (rule read_product_item_body_globals)
  show "fst (read_product_item_body \<lparr>f_globals = g1, f_locals = l\<rparr>)
     = fst (read_product_item_body \<lparr>f_globals = g2, f_locals = l\<rparr>)"
    by (rule read_product_item_body_locals_only)
qed (simp_all add: call_read_product_item_unfold read_product_item_unfold dict_object_def)

text \<open>
  C9. Each entry of the response depends on its own argument only. Two invocations
  that share the category (and differ freely in everything else, the surrounding state
  included) answer the same entry under category; likewise item_id for item_id,
  urgent for urgent, and discount for discount_applied. The shared argument is
  written once on both sides instead of assuming two arguments equal.
\<close>

theorem read_product_item_noninterference:
  "response_field (read_product_item category item_id1 urgent_arg1 discount_arg1 w1) ''category''
     = response_field (read_product_item category item_id2 urgent_arg2 discount_arg2 w2) ''category''
   \<and> response_field (read_product_item category1 item_id urgent_arg1 discount_arg1 w1) ''item_id''
     = response_field (read_product_item category2 item_id urgent_arg2 discount_arg2 w2) ''item_id''
   \<and> response_field (read_product_item category1 item_id1 urgent_arg discount_arg1 w1) ''urgent''
     = response_field (read_product_item category2 item_id2 urgent_arg discount_arg2 w2) ''urgent''
   \<and> response_field (read_product_item category1 item_id1 urgent_arg1 discount_arg w1)
        ''discount_applied''
     = response_field (read_product_item category2 item_id2 urgent_arg2 discount_arg w2)
        ''discount_applied''"
  by (simp add: response_field_read_product_item)

section \<open>Absence of failure\<close>

text \<open>
  C7. Every invocation with typed arguments returns a dictionary: the outcome is
  never an exception, whichever exception \<open>e\<close> one looks for.
\<close>

theorem read_product_item_returns:
  "(\<exists>item. read_product_item category item_id urgent_arg discount_arg w = (Inr item, w))
   \<and> (\<forall>e. fst (read_product_item category item_id urgent_arg discount_arg w) \<noteq> Inl e)"
  by (simp add: read_product_item_unfold)

text \<open>
  C10. The handler accepts every string and every integer and answers them as they
  are: the general statement, then the empty category, the item_id zero and a
  negative item_id, and one complete invocation with the empty category and
  item_id -7.
\<close>

theorem read_product_item_unconstrained:
  "(\<exists>item. read_product_item category item_id urgent_arg discount_arg w = (Inr item, w)
      \<and> dict_get item ''category'' = Some (VStr category)
      \<and> dict_get item ''item_id'' = Some (VInt item_id))
   \<and> response_field (read_product_item '''' item_id urgent_arg discount_arg w) ''category''
        = Some (VStr '''')
   \<and> response_field (read_product_item category 0 urgent_arg discount_arg w) ''item_id''
        = Some (VInt 0)
   \<and> response_field (read_product_item category (- 7) urgent_arg discount_arg w) ''item_id''
        = Some (VInt (- 7))
   \<and> read_product_item '''' (- 7) None None w =
     (Inr [(''category'', VStr ''''),
           (''item_id'', VInt (- 7)),
           (''urgent'', VBool False),
           (''discount_applied'', VFloat (PyFloat 0))], w)"
  by (simp add: read_product_item_unfold response_field_def dict_get_def)

section \<open>Scenarios\<close>

text \<open>
  C6. Scenario 2 of the specification: category books, item_id 7, urgent true and
  discount 15.5 (the pattern 402F000000000000). Scenario 1: category electronics and
  item_id 42 with both optional arguments omitted.
\<close>

theorem read_product_item_scenarios:
  "read_product_item ''books'' 7 (Some True) (Some (PyFloat 0x402F000000000000)) w =
     (Inr [(''category'', VStr ''books''),
           (''item_id'', VInt 7),
           (''urgent'', VBool True),
           (''discount_applied'', VFloat (PyFloat 0x402F000000000000))], w)
   \<and> float_value (PyFloat 0x402F000000000000) = Some 15.5
   \<and> read_product_item ''electronics'' 42 None None w =
     (Inr [(''category'', VStr ''electronics''),
           (''item_id'', VInt 42),
           (''urgent'', VBool False),
           (''discount_applied'', VFloat (PyFloat 0))], w)
   \<and> float_value (PyFloat 0) = Some 0"
  by (simp add: read_product_item_unfold float_fifteen_and_a_half float_zero)

text \<open>
  C5. A negative discount is accepted and returned as it is. For every discount whose
  sign bit is set (every negative number, the negative zero and the negative infinity
  included), with any category, item_id and urgent, the call returns the dictionary
  with this very discount under discount_applied: no exception, no clamping. Scenario
  4 of the specification is the instance category food, item_id 3, urgent omitted and
  discount -5.0 (the pattern C014000000000000, sign bit set, value -5).
\<close>

theorem read_product_item_negative_discount:
  "(float_sign discount \<longrightarrow>
      read_product_item category item_id urgent_arg (Some discount) w =
        (Inr [(''category'', VStr category),
              (''item_id'', VInt item_id),
              (''urgent'', VBool (case urgent_arg of None \<Rightarrow> False | Some b \<Rightarrow> b)),
              (''discount_applied'', VFloat discount)], w))
   \<and> read_product_item ''food'' 3 None (Some (PyFloat 0xC014000000000000)) w =
       (Inr [(''category'', VStr ''food''),
             (''item_id'', VInt 3),
             (''urgent'', VBool False),
             (''discount_applied'', VFloat (PyFloat 0xC014000000000000))], w)
   \<and> float_sign (PyFloat 0xC014000000000000)
   \<and> float_value (PyFloat 0xC014000000000000) = Some (- 5)"
proof (intro conjI impI)
  show "float_sign (PyFloat 0xC014000000000000)"
    by (simp add: float_sign_def)
  show "float_value (PyFloat 0xC014000000000000) = Some (- 5)"
    by (rule float_minus_five)
qed (simp_all add: read_product_item_unfold)

text \<open>The hypothesis of C5 holds at the discount -5.0 of scenario 4.\<close>

theorem read_product_item_negative_discount_witness:
  "float_sign (PyFloat 0xC014000000000000)
   \<and> (read_product_item ''food'' 3 None (Some (PyFloat 0xC014000000000000)) ()
        :: (unit + pydict) \<times> unit) =
       (Inr [(''category'', VStr ''food''),
             (''item_id'', VInt 3),
             (''urgent'', VBool False),
             (''discount_applied'', VFloat (PyFloat 0xC014000000000000))], ())"
proof -
  have neg: "float_sign (PyFloat 0xC014000000000000)"
    by (simp add: float_sign_def)
  from read_product_item_negative_discount
    [of "PyFloat 0xC014000000000000" "''food''" 3 None "()", THEN conjunct1, rule_format, OF neg]
  have "(read_product_item ''food'' 3 None (Some (PyFloat 0xC014000000000000)) ()
        :: (unit + pydict) \<times> unit) =
       (Inr [(''category'', VStr ''food''),
             (''item_id'', VInt 3),
             (''urgent'', VBool False),
             (''discount_applied'', VFloat (PyFloat 0xC014000000000000))], ())"
    by simp
  with neg show ?thesis
    by (intro conjI)
qed

end
